theory Spec2Isabelle
  imports Complex_Main "HOL-Library.Multiset"
begin

section \<open>Host-language primitives used by Table.js\<close>

text \<open>
  The component is written in JavaScript. The built-in operations it calls are modelled
  here once, for the inputs the component feeds them. Strings are lists of characters;
  the case conversions cover the ASCII letters and leave every other character as it is.
  An exception thrown by the host is the left summand of a sum type.
\<close>

datatype error = TypeError

text \<open>
  A property value of a row: a string, a number, a boolean, \<open>undefined\<close>, \<open>null\<close>, or a
  nested object. An object is the list of its own enumerable properties in enumeration
  order; reading a property that is not there gives \<open>undefined\<close>. Members inherited from
  a prototype are not part of the model.
\<close>

datatype val =
    VStr string
  | VNum int
  | VBool bool
  | VUndefined
  | VNull
  | VObj "(string \<times> val) list"

type_synonym obj = "(string \<times> val) list"

definition lowerAlphabet :: string where
  "lowerAlphabet = ''abcdefghijklmnopqrstuvwxyz''"

definition upperAlphabet :: string where
  "upperAlphabet = ''ABCDEFGHIJKLMNOPQRSTUVWXYZ''"

definition toUpperChar :: "char \<Rightarrow> char" where
  "toUpperChar c = (case map_of (zip lowerAlphabet upperAlphabet) c of Some u \<Rightarrow> u | None \<Rightarrow> c)"

definition toLowerChar :: "char \<Rightarrow> char" where
  "toLowerChar c = (case map_of (zip upperAlphabet lowerAlphabet) c of Some l \<Rightarrow> l | None \<Rightarrow> c)"

definition toLowerCase :: "string \<Rightarrow> string" where
  "toLowerCase s = map toLowerChar s"

text \<open>\<open>s.startsWith(q)\<close> and \<open>s.includes(q)\<close>.\<close>

fun startsWith :: "string \<Rightarrow> string \<Rightarrow> bool" where
  "startsWith s [] = True"
| "startsWith [] (q # qs) = False"
| "startsWith (c # cs) (q # qs) = (c = q \<and> startsWith cs qs)"

fun includesStr :: "string \<Rightarrow> string \<Rightarrow> bool" where
  "includesStr [] q = startsWith [] q"
| "includesStr (c # cs) q = (startsWith (c # cs) q \<or> includesStr cs q)"

text \<open>
  \<open>xs.slice(start, fin)\<close> of arrays and strings: a negative index counts from the end,
  both indices are clamped to the length, and an empty range gives the empty sequence.
\<close>

definition slice :: "'a list \<Rightarrow> int \<Rightarrow> int \<Rightarrow> 'a list" where
  "slice xs start fin =
     (let len = int (length xs);
          k = (if start < 0 then max (len + start) 0 else min start len);
          final = (if fin < 0 then max (len + fin) 0 else min fin len)
      in take (nat (final - k)) (drop (nat k) xs))"

text \<open>
  \<open>s.replace(pattern, replacement)\<close> with a string pattern: only the first occurrence is
  replaced, and the replacement text is expanded (\<open>$$\<close> is a dollar sign, \<open>$&\<close> the
  matched text, \<open>$`\<close> the text before the match and \<open>$'\<close> the text after it).
\<close>

fun splitAtFirst :: "string \<Rightarrow> string \<Rightarrow> (string \<times> string) option" where
  "splitAtFirst pat [] = (if pat = [] then Some ([], []) else None)"
| "splitAtFirst pat (c # cs) =
     (if startsWith (c # cs) pat then Some ([], drop (length pat) (c # cs))
      else (case splitAtFirst pat cs of
              None \<Rightarrow> None
            | Some (pre, post) \<Rightarrow> Some (c # pre, post)))"

fun getSubstitution :: "string \<Rightarrow> string \<Rightarrow> string \<Rightarrow> string \<Rightarrow> string" where
  "getSubstitution matched pre post [] = []"
| "getSubstitution matched pre post [c] = [c]"
| "getSubstitution matched pre post (c # d # r) =
     (if c = CHR ''$'' \<and> d = CHR ''$'' then CHR ''$'' # getSubstitution matched pre post r
      else if c = CHR ''$'' \<and> d = CHR ''&'' then matched @ getSubstitution matched pre post r
      else if c = CHR ''$'' \<and> d = CHR 0x60 then pre @ getSubstitution matched pre post r
      else if c = CHR ''$'' \<and> d = CHR 0x27 then post @ getSubstitution matched pre post r
      else c # getSubstitution matched pre post (d # r))"

definition replaceStr :: "string \<Rightarrow> string \<Rightarrow> string \<Rightarrow> string" where
  "replaceStr s pat replacement =
     (case splitAtFirst pat s of
        None \<Rightarrow> s
      | Some (pre, post) \<Rightarrow> pre @ getSubstitution pat pre post replacement @ post)"

section \<open>Paginator: \<open>separatePages\<close>\<close>

text \<open>
  The loop of \<open>separatePages\<close>: while \<open>originalContent\<close> is not empty, push
  \<open>originalContent.slice(0, rowsDisplayed)\<close> and continue with
  \<open>originalContent.slice(rowsDisplayed - 1, -1)\<close>. The second slice always drops the
  last element, so the loop ends.
\<close>

function separateLoop :: "int \<Rightarrow> 'a list \<Rightarrow> 'a list list \<Rightarrow> 'a list list" where
  "separateLoop rowsDisplayed originalContent slices =
     (if length originalContent > 0
      then separateLoop rowsDisplayed
             (slice originalContent (rowsDisplayed - 1) (- 1))
             (slices @ [slice originalContent 0 rowsDisplayed])
      else slices)"
  by pat_completeness auto
termination
  by (relation "measure (\<lambda>(rowsDisplayed, originalContent, slices). length originalContent)")
     (auto simp: slice_def Let_def min_def max_def)

declare separateLoop.simps [simp del]

definition separatePages :: "int \<Rightarrow> 'a list \<Rightarrow> 'a list list" where
  "separatePages rowsDisplayed content = separateLoop rowsDisplayed content []"

section \<open>Sort engine: \<open>toggleSortOrder\<close> and \<open>sortContent\<close>\<close>

text \<open>
  The state \<open>sorting\<close> is an object from category to \<open>"none"\<close>, \<open>"ascending"\<close> or
  \<open>"descending"\<close>, kept as the list of its properties in enumeration order.
  \<open>sorting[category]\<close> is \<open>map_of sorting category\<close>, with \<open>None\<close> for \<open>undefined\<close>.
\<close>

datatype sortOrder = SortNone | Ascending | Descending

type_synonym sorting = "(string \<times> sortOrder) list"

text \<open>\<open>o[k] = v\<close>: an existing property keeps its place, a new one is added at the end.\<close>

fun setProp :: "('k \<times> 'v) list \<Rightarrow> 'k \<Rightarrow> 'v \<Rightarrow> ('k \<times> 'v) list" where
  "setProp [] k v = [(k, v)]"
| "setProp ((k', v') # ps) k v = (if k' = k then (k, v) # ps else (k', v') # setProp ps k v)"

definition getProp :: "obj \<Rightarrow> string \<Rightarrow> val" where
  "getProp row k = (case map_of row k of Some v \<Rightarrow> v | None \<Rightarrow> VUndefined)"

definition toggleSortOrder :: "sorting \<Rightarrow> string \<Rightarrow> sorting" where
  "toggleSortOrder sorting category =
     (let newSorting = map (\<lambda>(sortingCategory, order). (sortingCategory, SortNone)) sorting
      in if map_of sorting category = Some SortNone \<or> map_of sorting category = Some Descending
         then setProp newSorting category Ascending
         else setProp newSorting category Descending)"

text \<open>
  \<open>value.toLowerCase()\<close> on a property value: only a string has the method; on a
  number, a boolean or an object the call is not a function, and on \<open>undefined\<close> and
  \<open>null\<close> the property read itself fails. Each of these is a \<open>TypeError\<close>.
\<close>

fun toLowerCaseVal :: "val \<Rightarrow> error + string" where
  "toLowerCaseVal (VStr s) = Inr (toLowerCase s)"
| "toLowerCaseVal (VNum n) = Inl TypeError"
| "toLowerCaseVal (VBool b) = Inl TypeError"
| "toLowerCaseVal VUndefined = Inl TypeError"
| "toLowerCaseVal VNull = Inl TypeError"
| "toLowerCaseVal (VObj ps) = Inl TypeError"

text \<open>
  The comparator handed to \<open>sort\<close> by \<open>sortContent\<close>. \<open>localeCompare\<close> is the host's
  collation of two strings (negative, zero or positive) and is a parameter of the model.
  The receiver's \<open>toLowerCase\<close> is evaluated before the argument's.
\<close>

definition compareRows ::
  "(string \<Rightarrow> string \<Rightarrow> int) \<Rightarrow> sorting \<Rightarrow> string \<Rightarrow> bool \<Rightarrow> obj \<Rightarrow> obj \<Rightarrow> error + int" where
  "compareRows localeCompare sorting category toggleOrder a b =
     (if ((map_of sorting category = Some SortNone \<or> map_of sorting category = Some Descending)
            \<and> toggleOrder)
         \<or> (map_of sorting category = Some Ascending \<and> \<not> toggleOrder)
      then (case toLowerCaseVal (getProp a category) of
              Inl e \<Rightarrow> Inl e
            | Inr x \<Rightarrow> (case toLowerCaseVal (getProp b category) of
                          Inl e \<Rightarrow> Inl e
                        | Inr y \<Rightarrow> Inr (localeCompare x y)))
      else (case toLowerCaseVal (getProp b category) of
              Inl e \<Rightarrow> Inl e
            | Inr y \<Rightarrow> (case toLowerCaseVal (getProp a category) of
                          Inl e \<Rightarrow> Inl e
                        | Inr x \<Rightarrow> Inr (localeCompare y x))))"

text \<open>
  \<open>Array.prototype.sort\<close> with a comparator is a stable sort; which pairs it compares is
  left to the engine. It is modelled by a stable insertion sort: an element goes before
  the first element it does not compare greater than. An exception thrown by a comparator
  call ends the sort with that exception.
\<close>

fun insertSorted :: "('a \<Rightarrow> 'a \<Rightarrow> error + int) \<Rightarrow> 'a \<Rightarrow> 'a list \<Rightarrow> error + 'a list" where
  "insertSorted cmp x [] = Inr [x]"
| "insertSorted cmp x (y # ys) =
     (case cmp x y of
        Inl e \<Rightarrow> Inl e
      | Inr c \<Rightarrow> (if c \<le> 0 then Inr (x # y # ys)
                  else (case insertSorted cmp x ys of
                          Inl e \<Rightarrow> Inl e
                        | Inr zs \<Rightarrow> Inr (y # zs))))"

fun sortWith :: "('a \<Rightarrow> 'a \<Rightarrow> error + int) \<Rightarrow> 'a list \<Rightarrow> error + 'a list" where
  "sortWith cmp [] = Inr []"
| "sortWith cmp (x # xs) =
     (case sortWith cmp xs of
        Inl e \<Rightarrow> Inl e
      | Inr ys \<Rightarrow> insertSorted cmp x ys)"

definition sortContent ::
  "(string \<Rightarrow> string \<Rightarrow> int) \<Rightarrow> sorting \<Rightarrow> obj list \<Rightarrow> string \<Rightarrow> bool \<Rightarrow> error + obj list" where
  "sortContent localeCompare sorting content category toggleOrder =
     sortWith (compareRows localeCompare sorting category toggleOrder) content"

section \<open>Filter engine: \<open>filterContent\<close>\<close>

text \<open>
  The callback of \<open>content.filter\<close>: every value of the row is lowercased and searched
  for the lowercased query, then the row is kept when some value contains it. The map
  visits every value, so one value without \<open>toLowerCase\<close> throws.
\<close>

fun mapIncludes :: "string \<Rightarrow> val list \<Rightarrow> error + bool list" where
  "mapIncludes query [] = Inr []"
| "mapIncludes query (v # vs) =
     (case toLowerCaseVal v of
        Inl e \<Rightarrow> Inl e
      | Inr s \<Rightarrow> (case mapIncludes query vs of
                    Inl e \<Rightarrow> Inl e
                  | Inr bs \<Rightarrow> Inr (includesStr s (toLowerCase query) # bs)))"

definition rowMatches :: "string \<Rightarrow> obj \<Rightarrow> error + bool" where
  "rowMatches query row =
     (case mapIncludes query (map snd row) of
        Inl e \<Rightarrow> Inl e
      | Inr rowValues \<Rightarrow> Inr (True \<in> set rowValues))"

fun filterRows :: "string \<Rightarrow> obj list \<Rightarrow> error + obj list" where
  "filterRows query [] = Inr []"
| "filterRows query (row # rows) =
     (case rowMatches query row of
        Inl e \<Rightarrow> Inl e
      | Inr keep \<Rightarrow> (case filterRows query rows of
                       Inl e \<Rightarrow> Inl e
                     | Inr kept \<Rightarrow> Inr (if keep then row # kept else kept)))"

text \<open>
  The loop \<open>for (const category in sorting)\<close> of \<open>filterContent\<close>: the first category
  whose state is not \<open>"none"\<close>, if there is one.
\<close>

fun firstActive :: "sorting \<Rightarrow> string list \<Rightarrow> string option" where
  "firstActive sorting [] = None"
| "firstActive sorting (category # rest) =
     (if map_of sorting category = Some SortNone then firstActive sorting rest
      else Some category)"

definition filterContent ::
  "(string \<Rightarrow> string \<Rightarrow> int) \<Rightarrow> sorting \<Rightarrow> string \<Rightarrow> obj list \<Rightarrow> error + obj list" where
  "filterContent localeCompare sorting query content =
     (case filterRows query content of
        Inl e \<Rightarrow> Inl e
      | Inr newContent \<Rightarrow>
          (case firstActive sorting (map fst sorting) of
             Some category \<Rightarrow> sortContent localeCompare sorting newContent category False
           | None \<Rightarrow> Inr newContent))"

text \<open>
  A collation to run examples with: strings compared character by character by code,
  a shorter string before its extensions.
\<close>

fun codeCompare :: "string \<Rightarrow> string \<Rightarrow> int" where
  "codeCompare [] [] = 0"
| "codeCompare [] (y # ys) = - 1"
| "codeCompare (x # xs) [] = 1"
| "codeCompare (x # xs) (y # ys) =
     (if (of_char x :: nat) < of_char y then - 1
      else if (of_char y :: nat) < of_char x then 1
      else codeCompare xs ys)"

section \<open>Number to string, string to number\<close>

text \<open>
  A number inside a template literal prints in decimal, and \<open>NaN\<close> prints as \<open>NaN\<close>.
  \<open>parseInt(s, 16)\<close> skips leading white space, reads a sign, skips a \<open>0x\<close> prefix and
  reads the longest run of hexadecimal digits; with no digit the result is \<open>NaN\<close>, here
  \<open>None\<close>.
\<close>

definition digitChar :: "nat \<Rightarrow> char" where
  "digitChar n = ''0123456789'' ! n"

fun showNat :: "nat \<Rightarrow> string" where
  "showNat n = (if n < 10 then [digitChar n] else showNat (n div 10) @ [digitChar (n mod 10)])"

declare showNat.simps [simp del]

definition showNumber :: "int option \<Rightarrow> string" where
  "showNumber x =
     (case x of
        None \<Rightarrow> ''NaN''
      | Some i \<Rightarrow> (if i < 0 then ''-'' @ showNat (nat (- i)) else showNat (nat i)))"

definition isWhiteSpace :: "char \<Rightarrow> bool" where
  "isWhiteSpace c = (c \<in> set [CHR 0x09, CHR 0x0A, CHR 0x0B, CHR 0x0C, CHR 0x0D, CHR 0x20])"

definition digitValue16 :: "char \<Rightarrow> nat option" where
  "digitValue16 c = map_of (zip ''0123456789abcdef'' [0 ..< 16]) (toLowerChar c)"

fun parseDigits16 :: "string \<Rightarrow> nat option \<Rightarrow> nat option" where
  "parseDigits16 [] acc = acc"
| "parseDigits16 (c # cs) acc =
     (case digitValue16 c of
        None \<Rightarrow> acc
      | Some d \<Rightarrow> parseDigits16 cs (Some (16 * (case acc of None \<Rightarrow> 0 | Some a \<Rightarrow> a) + d)))"

definition parseInt16 :: "string \<Rightarrow> int option" where
  "parseInt16 s =
     (let t = dropWhile isWhiteSpace s;
          u = (if startsWith t ''-'' \<or> startsWith t ''+'' then drop 1 t else t);
          w = (if startsWith u ''0x'' \<or> startsWith u ''0X'' then drop 2 u else u)
      in case parseDigits16 w None of
           None \<Rightarrow> None
         | Some n \<Rightarrow> Some (if startsWith t ''-'' then - int n else int n))"

section \<open>Record normalizer: \<open>removeObjects\<close>\<close>

text \<open>
  \<open>object[property][replacementProperty]\<close>: the member of a nested object, or
  \<open>undefined\<close> when it has none of that name; reading a member of \<open>undefined\<close> or \<open>null\<close>
  throws. A string has its \<open>length\<close> and its characters by index, a number and a boolean
  have no own member.
\<close>

fun getMember :: "val \<Rightarrow> string \<Rightarrow> error + val" where
  "getMember (VObj ps) k = Inr (getProp ps k)"
| "getMember VUndefined k = Inl TypeError"
| "getMember VNull k = Inl TypeError"
| "getMember (VStr s) k =
     (if k = ''length'' then Inr (VNum (int (length s)))
      else (case find (\<lambda>i. showNat i = k) [0 ..< length s] of
              Some i \<Rightarrow> Inr (VStr [s ! i])
            | None \<Rightarrow> Inr VUndefined))"
| "getMember (VNum n) k = Inr VUndefined"
| "getMember (VBool b) k = Inr VUndefined"

text \<open>
  The flatten map \<open>objectKey\<close> is a prop of the component: \<open>None\<close> when the prop is not
  supplied (\<open>undefined\<close>), on which \<open>objectKey.hasOwnProperty\<close> throws. The inner loop
  runs over the properties of one row and fills \<open>newObject\<close>; the outer one over the rows.
\<close>

fun flattenProps ::
  "(string \<times> string) list option \<Rightarrow> obj \<Rightarrow> (string \<times> val) list \<Rightarrow> obj \<Rightarrow> error + obj" where
  "flattenProps objectKey object [] newObject = Inr newObject"
| "flattenProps objectKey object ((property, v) # rest) newObject =
     (case objectKey of
        None \<Rightarrow> Inl TypeError
      | Some key \<Rightarrow>
          (case map_of key property of
             Some replacementProperty \<Rightarrow>
               (case getMember (getProp object property) replacementProperty of
                  Inl e \<Rightarrow> Inl e
                | Inr w \<Rightarrow> flattenProps objectKey object rest (setProp newObject property w))
           | None \<Rightarrow>
               flattenProps objectKey object rest
                 (setProp newObject property (getProp object property))))"

fun removeObjectsLoop ::
  "(string \<times> string) list option \<Rightarrow> obj list \<Rightarrow> obj list \<Rightarrow> error + obj list" where
  "removeObjectsLoop objectKey [] tempContent = Inr tempContent"
| "removeObjectsLoop objectKey (object # rest) tempContent =
     (case flattenProps objectKey object object [] of
        Inl e \<Rightarrow> Inl e
      | Inr newObject \<Rightarrow> removeObjectsLoop objectKey rest (tempContent @ [newObject]))"

definition removeObjects :: "(string \<times> string) list option \<Rightarrow> obj list \<Rightarrow> error + obj list" where
  "removeObjects objectKey content = removeObjectsLoop objectKey content []"

section \<open>Schema deriver: the label of a category\<close>

text \<open>
  The body of \<open>tempCategories.forEach\<close> in \<open>defineCategories\<close>. The loop visits the
  letters of \<open>category\<close>; for a letter equal to its own uppercase form it assigns to
  \<open>formattedCategory\<close> the result of a replacement in \<open>category\<close>. Afterwards the first
  character is uppercased; on the empty category there is no first character and
  \<open>formattedCategory[0].toUpperCase()\<close> throws.
\<close>

fun formatLetters :: "string \<Rightarrow> string \<Rightarrow> string \<Rightarrow> string" where
  "formatLetters category [] formattedCategory = formattedCategory"
| "formatLetters category (letter # rest) formattedCategory =
     formatLetters category rest
       (if letter = toUpperChar letter
        then replaceStr category [letter] ([CHR '' ''] @ [toLowerChar letter])
        else formattedCategory)"

definition formatCategory :: "string \<Rightarrow> error + string" where
  "formatCategory category =
     (case formatLetters category category category of
        [] \<Rightarrow> Inl TypeError
      | c # cs \<Rightarrow> Inr (replaceStr (c # cs) [c] [toUpperChar c]))"

section \<open>Color theme deriver: \<open>customColorTheme\<close>\<close>

record theme =
  theme_bright :: string
  theme_light :: string
  theme_text :: string

definition defaultTheme :: theme where
  "defaultTheme =
     \<lparr>theme_bright = ''rgba(139, 134, 128, 1)'',
      theme_light = ''rgba(139, 134, 128, 0.2)'',
      theme_text = ''white''\<rparr>"

text \<open>
  The pattern \<open>/^#[0-9a-zA-Z]{3}(?:[0-9a-zA-Z]{3})?$/\<close>: a number sign followed by three
  or six characters, each a digit or a letter.
\<close>

definition isAlnum :: "char \<Rightarrow> bool" where
  "isAlnum c = (c \<in> set (''0123456789'' @ lowerAlphabet @ upperAlphabet))"

definition hexRegexTest :: "string \<Rightarrow> bool" where
  "hexRegexTest color =
     (case color of
        [] \<Rightarrow> False
      | c # rest \<Rightarrow> c = CHR ''#'' \<and> (length rest = 3 \<or> length rest = 6) \<and> list_all isAlnum rest)"

text \<open>
  The loop over the letters of a four-character \<open>hex\<close>: each letter other than the
  number sign is replaced in \<open>newHex\<close>, at its first occurrence there, by two copies.
\<close>

fun expandLetters :: "string \<Rightarrow> string \<Rightarrow> string" where
  "expandLetters [] newHex = newHex"
| "expandLetters (letter # rest) newHex =
     expandLetters rest
       (if letter \<noteq> CHR ''#'' then replaceStr newHex [letter] [letter, letter] else newHex)"

text \<open>
  The luminance is computed by the code in double precision; the model computes it over
  the reals. With a channel that is \<open>NaN\<close> the luminance is \<open>NaN\<close> and the test
  \<open>relativeLuminance > 0.5\<close> is false.
\<close>

definition relativeLuminance :: "int option \<Rightarrow> int option \<Rightarrow> int option \<Rightarrow> real option" where
  "relativeLuminance r g b =
     (case (r, g, b) of
        (Some r', Some g', Some b') \<Rightarrow>
          Some ((0.2126 * real_of_int r' + 0.7152 * real_of_int g' + 0.0722 * real_of_int b') / 255)
      | _ \<Rightarrow> None)"

definition customColorTheme :: "string \<Rightarrow> theme" where
  "customColorTheme hex =
     (let newHex = (if length hex = 4 then expandLetters hex hex else hex);
          r = parseInt16 (slice newHex 1 3);
          g = parseInt16 (slice newHex 3 5);
          b = parseInt16 (slice newHex 5 7);
          bright = ''rgba('' @ showNumber r @ '', '' @ showNumber g @ '', '' @ showNumber b @ '', 1)'';
          light = ''rgba('' @ showNumber r @ '', '' @ showNumber g @ '', '' @ showNumber b @ '', 0.2)'';
          txt = (case relativeLuminance r g b of
                   Some l \<Rightarrow> (if l > 0.5 then ''black'' else ''white'')
                 | None \<Rightarrow> ''white'')
      in \<lparr>theme_bright = bright, theme_light = light, theme_text = txt\<rparr>)"

text \<open>
  The effect on the \<open>color\<close> prop: the theme is replaced only when the pattern accepts
  the color. A prop that is not supplied is tested as the string \<open>undefined\<close>.
\<close>

definition colorEffect :: "string option \<Rightarrow> theme \<Rightarrow> theme" where
  "colorEffect color colorTheme =
     (case color of
        None \<Rightarrow> (if hexRegexTest ''undefined'' then customColorTheme ''undefined'' else colorTheme)
      | Some hex \<Rightarrow> (if hexRegexTest hex then customColorTheme hex else colorTheme))"

section \<open>Value renderer: \<open>renderProperty\<close>\<close>

text \<open>
  A column as \<open>defineCategories\<close> builds it: the property name and its label.
\<close>

record categoryEntry =
  entry_category :: string
  entry_formattedCategory :: string

text \<open>
  \<open>renderProperty\<close> asks the date library three things about the value \<open>v\<close> of the
  cell: \<open>dayjs(v).isValid()\<close>, \<open>dayjs(v).toISOString()\<close> and \<open>dayjs(v).format(f)\<close>.
  They are parameters of the model. The prop \<open>dateFormat\<close> is \<open>None\<close> when it is not
  supplied; the test \<open>if (dateFormat)\<close> also fails on the empty string. A row without the
  property makes the function return \<open>undefined\<close>. The comparison \<open>===\<close> of the value with
  a string holds only for that very string, and is evaluated only after \<open>isValid\<close>.
\<close>

definition renderProperty ::
  "(val \<Rightarrow> bool) \<Rightarrow> (val \<Rightarrow> string) \<Rightarrow> (val \<Rightarrow> string \<Rightarrow> string) \<Rightarrow> string option
     \<Rightarrow> obj \<Rightarrow> categoryEntry \<Rightarrow> val" where
  "renderProperty isValid toISOString format dateFormat row category =
     (case map_of row (entry_category category) of
        None \<Rightarrow> VUndefined
      | Some v \<Rightarrow>
          (if isValid v \<and> v = VStr (toISOString v)
           then (case dateFormat of
                   None \<Rightarrow> VStr (format v ''DD/MM/YYYY'')
                 | Some f \<Rightarrow> (if f = [] then VStr (format v ''DD/MM/YYYY'')
                              else VStr (format v f)))
           else v))"

text \<open>
  A date library to run examples with. It covers the strings of the form
  \<open>YYYY-MM-DDTHH:mm:ss.sssZ\<close>, which name an instant in universal time, on a host whose
  local time is a fixed number of minutes ahead of universal time. An instant is a
  number of milliseconds since 1970; days and calendar dates are converted by the usual
  count of days in the Gregorian calendar. Formatting is done in local time and knows
  the tokens \<open>YYYY\<close>, \<open>YY\<close>, \<open>MM\<close> and \<open>DD\<close>; every other character is copied.
\<close>

fun decimalValue :: "string \<Rightarrow> nat \<Rightarrow> nat option" where
  "decimalValue [] acc = Some acc"
| "decimalValue (c # cs) acc =
     (case map_of (zip ''0123456789'' [0 ..< 10]) c of
        None \<Rightarrow> None
      | Some d \<Rightarrow> decimalValue cs (10 * acc + d))"

definition daysFromCivil :: "int \<Rightarrow> int \<Rightarrow> int \<Rightarrow> int" where
  "daysFromCivil year month day =
     (let y = (if month \<le> 2 then year - 1 else year);
          era = y div 400;
          yoe = y - era * 400;
          doy = (153 * (if month > 2 then month - 3 else month + 9) + 2) div 5 + day - 1;
          doe = yoe * 365 + yoe div 4 - yoe div 100 + doy
      in era * 146097 + doe - 719468)"

definition civilFromDays :: "int \<Rightarrow> int \<times> int \<times> int" where
  "civilFromDays days =
     (let z = days + 719468;
          era = z div 146097;
          doe = z - era * 146097;
          yoe = (doe - doe div 1460 + doe div 36524 - doe div 146096) div 365;
          doy = doe - (365 * yoe + yoe div 4 - yoe div 100);
          mp = (5 * doy + 2) div 153;
          day = doy - (153 * mp + 2) div 5 + 1;
          month = (if mp < 10 then mp + 3 else mp - 9);
          year = yoe + era * 400 + (if month \<le> 2 then 1 else 0)
      in (year, month, day))"

definition parseInstant :: "string \<Rightarrow> int option" where
  "parseInstant s =
     (if length s = 24 \<and> map (\<lambda>i. s ! i) [4, 7, 10, 13, 16, 19, 23] = ''--T::.Z''
      then (case (decimalValue (take 4 s) 0, decimalValue (take 2 (drop 5 s)) 0,
                  decimalValue (take 2 (drop 8 s)) 0, decimalValue (take 2 (drop 11 s)) 0,
                  decimalValue (take 2 (drop 14 s)) 0, decimalValue (take 2 (drop 17 s)) 0,
                  decimalValue (take 3 (drop 20 s)) 0) of
              (Some year, Some month, Some day, Some hour, Some minute, Some second, Some ms) \<Rightarrow>
                (if 1 \<le> month \<and> month \<le> 12 \<and> 1 \<le> day \<and> day \<le> 31
                    \<and> hour \<le> 23 \<and> minute \<le> 59 \<and> second \<le> 59
                 then Some (daysFromCivil (int year) (int month) (int day) * 86400000
                            + int hour * 3600000 + int minute * 60000 + int second * 1000 + int ms)
                 else None)
            | _ \<Rightarrow> None)
      else None)"

definition padNumber :: "nat \<Rightarrow> int \<Rightarrow> string" where
  "padNumber width n =
     replicate (width - length (showNat (nat n))) (CHR ''0'') @ showNat (nat n)"

definition instantToISOString :: "int \<Rightarrow> string" where
  "instantToISOString t =
     (let (year, month, day) = civilFromDays (t div 86400000);
          r = t mod 86400000
      in padNumber 4 year @ ''-'' @ padNumber 2 month @ ''-'' @ padNumber 2 day @ ''T''
         @ padNumber 2 (r div 3600000) @ '':'' @ padNumber 2 (r div 60000 mod 60) @ '':''
         @ padNumber 2 (r div 1000 mod 60) @ ''.'' @ padNumber 3 (r mod 1000) @ ''Z'')"

fun formatTokens :: "int \<times> int \<times> int \<Rightarrow> string \<Rightarrow> string" where
  "formatTokens (year, month, day) [] = []"
| "formatTokens (year, month, day) (c # cs) =
     (if startsWith (c # cs) ''YYYY''
        then padNumber 4 year @ formatTokens (year, month, day) (drop 3 cs)
      else if startsWith (c # cs) ''YY''
        then padNumber 2 (year mod 100) @ formatTokens (year, month, day) (drop 1 cs)
      else if startsWith (c # cs) ''MM''
        then padNumber 2 month @ formatTokens (year, month, day) (drop 1 cs)
      else if startsWith (c # cs) ''DD''
        then padNumber 2 day @ formatTokens (year, month, day) (drop 1 cs)
      else c # formatTokens (year, month, day) cs)"

definition hostIsValid :: "val \<Rightarrow> bool" where
  "hostIsValid v = (case v of VStr s \<Rightarrow> parseInstant s \<noteq> None | _ \<Rightarrow> False)"

definition hostToISOString :: "val \<Rightarrow> string" where
  "hostToISOString v =
     (case v of
        VStr s \<Rightarrow> (case parseInstant s of Some t \<Rightarrow> instantToISOString t | None \<Rightarrow> [])
      | _ \<Rightarrow> [])"

definition hostFormat :: "int \<Rightarrow> val \<Rightarrow> string \<Rightarrow> string" where
  "hostFormat offsetMinutes v f =
     (case v of
        VStr s \<Rightarrow>
          (case parseInstant s of
             Some t \<Rightarrow> formatTokens (civilFromDays ((t + offsetMinutes * 60000) div 86400000)) f
           | None \<Rightarrow> ''Invalid Date'')
      | _ \<Rightarrow> ''Invalid Date'')"

section \<open>Pagination\<close>

text \<open>
  C1. Pagination is claimed to cut the records into consecutive chunks whose
  concatenation is the input. On 23 records with page size 10 the code returns three
  pages of sizes 10, 10 and 3, but the second page starts again at the last record of the
  first page, the third at the last record of the second, and the last two records are
  on no page: the concatenation of the pages is not the input.
\<close>

theorem separatePages_23_by_10:
  "separatePages 10 [0, 1, 2, 3, 4, 5, 6, 7, 8, 9, 10, 11, 12, 13, 14, 15, 16, 17, 18, 19, 20, 21, 22 :: nat]
     = [[0, 1, 2, 3, 4, 5, 6, 7, 8, 9],
        [9, 10, 11, 12, 13, 14, 15, 16, 17, 18],
        [18, 19, 20]]
   \<and> map length (separatePages 10 [0, 1, 2, 3, 4, 5, 6, 7, 8, 9, 10, 11, 12, 13, 14, 15, 16, 17, 18, 19, 20, 21, 22 :: nat])
     = [10, 10, 3]
   \<and> concat (separatePages 10 [0, 1, 2, 3, 4, 5, 6, 7, 8, 9, 10, 11, 12, 13, 14, 15, 16, 17, 18, 19, 20, 21, 22 :: nat])
     \<noteq> [0, 1, 2, 3, 4, 5, 6, 7, 8, 9, 10, 11, 12, 13, 14, 15, 16, 17, 18, 19, 20, 21, 22]"
  by (simp add: separatePages_def separateLoop.simps slice_def)

section \<open>Normalization without a flatten map\<close>

text \<open>
  C2. Normalization is claimed to accept an absent flatten map. With the \<open>objectKey\<close>
  prop not supplied, the first property of the first record makes
  \<open>objectKey.hasOwnProperty\<close> throw: on the two records of the usage example of the
  component, rendered without \<open>objectKey\<close>, no normalized record is produced.
\<close>

theorem removeObjects_without_objectKey:
  "removeObjects None
     [[(''animal'', VStr ''manatee''), (''color'', VStr ''turquoise''), (''food'', VStr ''pizza'')],
      [(''animal'', VStr ''deer''), (''color'', VStr ''lavender''), (''food'', VStr ''sushi'')]]
   = Inl TypeError"
  by (simp add: removeObjects_def)

section \<open>Labels\<close>

text \<open>
  C3. The label is claimed to split the key before each of its uppercase letters. Each
  replacement is made in the key itself and not in the label built so far, so only the
  last letter found survives: \<open>myFavoriteAnimal\<close> becomes \<open>MyFavorite animal\<close>. A key with
  one uppercase letter, \<open>pastFavorite\<close>, becomes \<open>Past favorite\<close> as claimed.
\<close>

theorem formatCategory_several_capitals:
  "formatCategory ''myFavoriteAnimal'' = Inr ''MyFavorite animal''
   \<and> formatCategory ''pastFavorite'' = Inr ''Past favorite''"
  by (simp add: formatCategory_def toUpperChar_def toLowerChar_def lowerAlphabet_def
        upperAlphabet_def replaceStr_def)

section \<open>Sorting values that are not strings\<close>

lemma error_is_TypeError: "(e :: error) = TypeError"
  by (cases e) simp

lemma compareRows_strings:
  assumes "getProp a category = VStr s" and "getProp b category = VStr t"
  shows "compareRows lc sorting category toggleOrder a b =
           Inr (if ((map_of sorting category = Some SortNone \<or> map_of sorting category = Some Descending)
                      \<and> toggleOrder)
                   \<or> (map_of sorting category = Some Ascending \<and> \<not> toggleOrder)
                then lc (toLowerCase s) (toLowerCase t)
                else lc (toLowerCase t) (toLowerCase s))"
proof (cases "((map_of sorting category = Some SortNone \<or> map_of sorting category = Some Descending)
                      \<and> toggleOrder)
                   \<or> (map_of sorting category = Some Ascending \<and> \<not> toggleOrder)")
  case True
  then show ?thesis unfolding compareRows_def if_P [OF True] using assms by simp
next
  case False
  then show ?thesis unfolding compareRows_def if_not_P [OF False] using assms by simp
qed

lemma toLowerCaseVal_not_string: "(\<forall>s. v \<noteq> VStr s) \<Longrightarrow> toLowerCaseVal v = Inl TypeError"
  by (cases v) simp_all

lemma compareRows_not_string:
  assumes "(\<forall>s. getProp a category \<noteq> VStr s) \<or> (\<forall>t. getProp b category \<noteq> VStr t)"
  shows "compareRows lc sorting category toggleOrder a b = Inl TypeError"
proof -
  have "toLowerCaseVal (getProp a category) = Inl TypeError
        \<or> toLowerCaseVal (getProp b category) = Inl TypeError"
    using assms toLowerCaseVal_not_string by blast
  then show ?thesis
    unfolding compareRows_def by (auto split: sum.splits intro: error_is_TypeError)
qed

lemma insertSorted_mset:
  assumes "\<And>a b. a \<in> A \<Longrightarrow> b \<in> A \<Longrightarrow> cmp a b = Inr (f a b)"
    and "x \<in> A" and "set ys \<subseteq> A"
  shows "\<exists>zs. insertSorted cmp x ys = Inr zs \<and> mset zs = add_mset x (mset ys)"
  using assms(3)
proof (induction ys)
  case Nil
  then show ?case by simp
next
  case (Cons y ys)
  then obtain zs where zs: "insertSorted cmp x ys = Inr zs" "mset zs = add_mset x (mset ys)"
    by auto
  have "cmp x y = Inr (f x y)" using assms(1,2) Cons.prems by simp
  with zs show ?case by simp
qed

lemma sortWith_mset:
  assumes "\<And>a b. a \<in> A \<Longrightarrow> b \<in> A \<Longrightarrow> cmp a b = Inr (f a b)"
  shows "set xs \<subseteq> A \<Longrightarrow> \<exists>ys. sortWith cmp xs = Inr ys \<and> mset ys = mset xs"
proof (induction xs)
  case Nil
  then show ?case by simp
next
  case (Cons x xs)
  then obtain ys where ys: "sortWith cmp xs = Inr ys" "mset ys = mset xs" by auto
  have "x \<in> A" using Cons.prems by simp
  moreover have "set ys \<subseteq> A"
    using ys(2) Cons.prems by (metis set_mset_mset set_subset_Cons subset_trans)
  ultimately obtain zs where "insertSorted cmp x ys = Inr zs" "mset zs = add_mset x (mset ys)"
    using insertSorted_mset [of A cmp f x ys] assms by blast
  with ys show ?case by simp
qed

lemma insertSorted_set: "insertSorted cmp x ys = Inr zs \<Longrightarrow> set zs = insert x (set ys)"
proof (induction ys arbitrary: zs)
  case Nil
  then show ?case by auto
next
  case (Cons y ys)
  show ?case
  proof (cases "cmp x y")
    case (Inl e)
    with Cons.prems show ?thesis by simp
  next
    case (Inr c)
    show ?thesis
    proof (cases "c \<le> 0")
      case True
      with Inr Cons.prems show ?thesis by auto
    next
      case False
      with Inr Cons.prems obtain zs' where "insertSorted cmp x ys = Inr zs'" "zs = y # zs'"
        by (cases "insertSorted cmp x ys") auto
      with Cons.IH show ?thesis by auto
    qed
  qed
qed

lemma sortWith_set: "sortWith cmp xs = Inr ys \<Longrightarrow> set ys = set xs"
proof (induction xs arbitrary: ys)
  case Nil
  then show ?case by simp
next
  case (Cons x xs)
  then obtain ys' where "sortWith cmp xs = Inr ys'" "insertSorted cmp x ys' = Inr ys"
    by (cases "sortWith cmp xs") auto
  with Cons.IH insertSorted_set show ?case by fastforce
qed

lemma sortWith_throws:
  assumes bad: "\<And>a b. a \<in> B \<or> b \<in> B \<Longrightarrow> cmp a b = Inl TypeError"
  shows "2 \<le> length xs \<Longrightarrow> set xs \<inter> B \<noteq> {} \<Longrightarrow> sortWith cmp xs = Inl TypeError"
proof (induction xs)
  case Nil
  then show ?case by simp
next
  case (Cons x xs)
  show ?case
  proof (cases "sortWith cmp xs")
    case (Inl e)
    then show ?thesis using error_is_TypeError [of e] by simp
  next
    case (Inr ys)
    have set_ys: "set ys = set xs" using Inr by (rule sortWith_set)
    have "xs \<noteq> []" using Cons.prems(1) by auto
    then obtain y ys' where ys: "ys = y # ys'" using set_ys by (cases ys) auto
    have "x \<in> B \<or> y \<in> B"
    proof (rule ccontr)
      assume none: "\<not> (x \<in> B \<or> y \<in> B)"
      then have inter: "set xs \<inter> B \<noteq> {}" using Cons.prems(2) by auto
      have "\<not> 2 \<le> length xs"
      proof
        assume "2 \<le> length xs"
        then have "sortWith cmp xs = Inl TypeError" using Cons.IH inter by blast
        with Inr show False by simp
      qed
      then obtain z where "xs = [z]" using \<open>xs \<noteq> []\<close>
        by (cases xs) (auto simp: Suc_le_eq)
      with Inr ys inter none show False by auto
    qed
    then have "cmp x y = Inl TypeError" by (rule bad)
    with Inr ys show ?thesis by simp
  qed
qed

text \<open>
  C4, as amended. The comparator of \<open>sortContent\<close> does not coerce. When the values of
  the sort column of both records are strings, it returns the collation of their
  lowercased forms, in the order fixed by the state of the column and \<open>toggleOrder\<close>.
  When one of the two is not a string (a number, \<open>undefined\<close>), the comparison throws a
  \<open>TypeError\<close>, and sorting two or more records of which one has such a value in the
  sort column ends with that \<open>TypeError\<close>. Sorting a collection whose values in the sort
  column are all strings returns, with a rearrangement of the collection.
\<close>

theorem sortContent_without_coercion:
  "(\<forall>s t. getProp a category = VStr s \<and> getProp b category = VStr t \<longrightarrow>
      compareRows lc sorting category toggleOrder a b =
        Inr (if ((map_of sorting category = Some SortNone \<or> map_of sorting category = Some Descending)
                   \<and> toggleOrder)
                \<or> (map_of sorting category = Some Ascending \<and> \<not> toggleOrder)
             then lc (toLowerCase s) (toLowerCase t)
             else lc (toLowerCase t) (toLowerCase s)))
   \<and> ((\<forall>s. getProp a category \<noteq> VStr s) \<or> (\<forall>t. getProp b category \<noteq> VStr t) \<longrightarrow>
      compareRows lc sorting category toggleOrder a b = Inl TypeError)
   \<and> (2 \<le> length content \<and> (\<exists>row \<in> set content. \<forall>s. getProp row category \<noteq> VStr s) \<longrightarrow>
      sortContent lc sorting content category toggleOrder = Inl TypeError)
   \<and> ((\<forall>row \<in> set content. \<exists>s. getProp row category = VStr s) \<longrightarrow>
      (\<exists>result. sortContent lc sorting content category toggleOrder = Inr result
                \<and> mset result = mset content))"
proof (intro conjI allI impI)
  fix s t
  assume "getProp a category = VStr s \<and> getProp b category = VStr t"
  then show "compareRows lc sorting category toggleOrder a b =
        Inr (if ((map_of sorting category = Some SortNone \<or> map_of sorting category = Some Descending)
                   \<and> toggleOrder)
                \<or> (map_of sorting category = Some Ascending \<and> \<not> toggleOrder)
             then lc (toLowerCase s) (toLowerCase t)
             else lc (toLowerCase t) (toLowerCase s))"
    using compareRows_strings by blast
next
  assume "(\<forall>s. getProp a category \<noteq> VStr s) \<or> (\<forall>t. getProp b category \<noteq> VStr t)"
  then show "compareRows lc sorting category toggleOrder a b = Inl TypeError"
    by (rule compareRows_not_string)
next
  assume asm: "2 \<le> length content \<and> (\<exists>row \<in> set content. \<forall>s. getProp row category \<noteq> VStr s)"
  define B where "B = {row. \<forall>s. getProp row category \<noteq> VStr s}"
  have "compareRows lc sorting category toggleOrder x y = Inl TypeError" if "x \<in> B \<or> y \<in> B" for x y
    using that compareRows_not_string [of x category y] by (auto simp: B_def)
  moreover have "set content \<inter> B \<noteq> {}" using asm by (auto simp: B_def)
  ultimately show "sortContent lc sorting content category toggleOrder = Inl TypeError"
    unfolding sortContent_def using asm sortWith_throws [of B] by blast
next
  assume strings: "\<forall>row \<in> set content. \<exists>s. getProp row category = VStr s"
  define A where "A = {row. \<exists>s. getProp row category = VStr s}"
  define key where "key = (\<lambda>row. case getProp row category of VStr s \<Rightarrow> toLowerCase s | _ \<Rightarrow> [])"
  define asc where "asc =
      (((map_of sorting category = Some SortNone \<or> map_of sorting category = Some Descending)
            \<and> toggleOrder)
         \<or> (map_of sorting category = Some Ascending \<and> \<not> toggleOrder))"
  define f where "f = (\<lambda>x y. if asc then lc (key x) (key y) else lc (key y) (key x))"
  have "compareRows lc sorting category toggleOrder x y = Inr (f x y)"
    if x: "x \<in> A" and y: "y \<in> A" for x y
  proof -
    obtain s t where st: "getProp x category = VStr s" "getProp y category = VStr t"
      using x y by (auto simp: A_def)
    have "compareRows lc sorting category toggleOrder x y =
            Inr (if asc then lc (toLowerCase s) (toLowerCase t)
                 else lc (toLowerCase t) (toLowerCase s))"
      unfolding asc_def by (rule compareRows_strings [OF st])
    then show ?thesis by (simp add: f_def key_def st)
  qed
  moreover have "set content \<subseteq> A" using strings by (auto simp: A_def)
  ultimately show "\<exists>result. sortContent lc sorting content category toggleOrder = Inr result
                \<and> mset result = mset content"
    unfolding sortContent_def
    using sortWith_mset [of A "compareRows lc sorting category toggleOrder" f content] by blast
qed

text \<open>The amended statement of C4 at concrete records, one for each of its four parts.\<close>

theorem sortContent_without_coercion_witness:
  "compareRows codeCompare [(''animal'', SortNone)] ''animal'' True
      [(''animal'', VStr ''Manatee'')] [(''animal'', VStr ''deer'')] = Inr 1
   \<and> compareRows codeCompare [(''age'', SortNone)] ''age'' True
      [(''age'', VNum 30)] [(''age'', VStr ''4'')] = Inl TypeError
   \<and> sortContent codeCompare [(''animal'', SortNone), (''age'', SortNone)]
      [[(''animal'', VStr ''manatee''), (''age'', VNum 30)], [(''animal'', VStr ''deer'')]]
      ''age'' True = Inl TypeError
   \<and> (\<exists>result. sortContent codeCompare [(''animal'', SortNone), (''age'', SortNone)]
      [[(''animal'', VStr ''manatee''), (''age'', VNum 30)], [(''animal'', VStr ''deer'')]]
      ''animal'' True = Inr result
      \<and> mset result = mset [[(''animal'', VStr ''manatee''), (''age'', VNum 30)], [(''animal'', VStr ''deer'')]])"
proof -
  have "compareRows codeCompare [(''animal'', SortNone)] ''animal'' True
      [(''animal'', VStr ''Manatee'')] [(''animal'', VStr ''deer'')] = Inr 1"
    using sortContent_without_coercion [of "[(''animal'', VStr ''Manatee'')]" "''animal''"
          "[(''animal'', VStr ''deer'')]" codeCompare "[(''animal'', SortNone)]" True "[]"]
    by (simp add: getProp_def toLowerCase_def toLowerChar_def upperAlphabet_def lowerAlphabet_def)
  moreover have "compareRows codeCompare [(''age'', SortNone)] ''age'' True
      [(''age'', VNum 30)] [(''age'', VStr ''4'')] = Inl TypeError"
    using sortContent_without_coercion [of "[(''age'', VNum 30)]" "''age''"
          "[(''age'', VStr ''4'')]" codeCompare "[(''age'', SortNone)]" True "[]"]
    by (simp add: getProp_def)
  moreover have "sortContent codeCompare [(''animal'', SortNone), (''age'', SortNone)]
      [[(''animal'', VStr ''manatee''), (''age'', VNum 30)], [(''animal'', VStr ''deer'')]]
      ''age'' True = Inl TypeError"
    using sortContent_without_coercion [of "[]" "''age''" "[]" codeCompare
          "[(''animal'', SortNone), (''age'', SortNone)]" True
          "[[(''animal'', VStr ''manatee''), (''age'', VNum 30)], [(''animal'', VStr ''deer'')]]"]
    by (simp add: getProp_def)
  moreover have "\<exists>result. sortContent codeCompare [(''animal'', SortNone), (''age'', SortNone)]
      [[(''animal'', VStr ''manatee''), (''age'', VNum 30)], [(''animal'', VStr ''deer'')]]
      ''animal'' True = Inr result
      \<and> mset result = mset [[(''animal'', VStr ''manatee''), (''age'', VNum 30)], [(''animal'', VStr ''deer'')]]"
    using sortContent_without_coercion [of "[]" "''animal''" "[]" codeCompare
          "[(''animal'', SortNone), (''age'', SortNone)]" True
          "[[(''animal'', VStr ''manatee''), (''age'', VNum 30)], [(''animal'', VStr ''deer'')]]"]
    by (simp add: getProp_def)
  ultimately show ?thesis by blast
qed

text \<open>
  C4 as stated fails: sorting two records by a column that holds the numbers 30 and 4
  does not return, it throws.
\<close>

theorem sortContent_numbers_counterexample:
  "sortContent codeCompare [(''animal'', SortNone), (''age'', SortNone)]
      [[(''animal'', VStr ''manatee''), (''age'', VNum 30)],
       [(''animal'', VStr ''deer''), (''age'', VNum 4)]]
      ''age'' True = Inl TypeError"
  by (simp add: sortContent_def compareRows_def getProp_def)

section \<open>The cycle of sort states\<close>

lemma map_of_setProp: "map_of (setProp ps k v) k' = (if k' = k then Some v else map_of ps k')"
  by (induction ps k v rule: setProp.induct) auto

lemma map_of_reset:
  "map_of (map (\<lambda>(sortingCategory, order). (sortingCategory, SortNone)) ps) k
     = (if k \<in> fst ` set ps then Some SortNone else None)"
  by (induction ps) auto

lemma active_setProp:
  "filter (\<lambda>(k', v'). v' \<noteq> SortNone) ps = [] \<Longrightarrow> v \<noteq> SortNone \<Longrightarrow>
   length (filter (\<lambda>(k', v'). v' \<noteq> SortNone) (setProp ps k v)) = 1"
  by (induction ps k v rule: setProp.induct) (auto split: if_splits)

lemma active_reset:
  "filter (\<lambda>(k', v'). v' \<noteq> SortNone) (map (\<lambda>(sortingCategory, order). (sortingCategory, SortNone)) ps) = []"
  by (induction ps) auto

text \<open>
  C5. \<open>toggleSortOrder\<close> takes the toggled column from \<open>none\<close> to \<open>ascending\<close>, from
  \<open>ascending\<close> to \<open>descending\<close> and from \<open>descending\<close> to \<open>ascending\<close>; every other
  column of the state becomes \<open>none\<close>, and afterwards at most one entry of the state
  is not \<open>none\<close>.
\<close>

theorem toggleSortOrder_cycle:
  "(map_of sorting category = Some SortNone \<longrightarrow>
      map_of (toggleSortOrder sorting category) category = Some Ascending)
   \<and> (map_of sorting category = Some Ascending \<longrightarrow>
      map_of (toggleSortOrder sorting category) category = Some Descending)
   \<and> (map_of sorting category = Some Descending \<longrightarrow>
      map_of (toggleSortOrder sorting category) category = Some Ascending)
   \<and> (\<forall>other. other \<noteq> category \<and> other \<in> fst ` set sorting \<longrightarrow>
      map_of (toggleSortOrder sorting category) other = Some SortNone)
   \<and> length (filter (\<lambda>(k, order). order \<noteq> SortNone) (toggleSortOrder sorting category)) \<le> 1"
  by (simp add: toggleSortOrder_def Let_def map_of_setProp map_of_reset active_setProp active_reset)

text \<open>C5 on a state of two columns, once for each state of the toggled column.\<close>

theorem toggleSortOrder_cycle_witness:
  "map_of (toggleSortOrder [(''animal'', SortNone), (''color'', Descending)] ''animal'') ''animal'' = Some Ascending
   \<and> map_of (toggleSortOrder [(''animal'', Ascending), (''color'', SortNone)] ''animal'') ''animal'' = Some Descending
   \<and> map_of (toggleSortOrder [(''animal'', Descending), (''color'', SortNone)] ''animal'') ''animal'' = Some Ascending
   \<and> map_of (toggleSortOrder [(''animal'', SortNone), (''color'', Descending)] ''animal'') ''color'' = Some SortNone
   \<and> length (filter (\<lambda>(k, order). order \<noteq> SortNone)
        (toggleSortOrder [(''animal'', SortNone), (''color'', Descending)] ''animal'')) \<le> 1"
  using toggleSortOrder_cycle [of "[(''animal'', SortNone), (''color'', Descending)]" "''animal''"]
        toggleSortOrder_cycle [of "[(''animal'', Ascending), (''color'', SortNone)]" "''animal''"]
        toggleSortOrder_cycle [of "[(''animal'', Descending), (''color'', SortNone)]" "''animal''"]
  by simp

section \<open>Filtering keeps the active sort\<close>

lemma insertSorted_sorted:
  assumes cmp: "\<And>a b. a \<in> A \<Longrightarrow> b \<in> A \<Longrightarrow> cmp a b = Inr (f a b)"
    and trans: "\<And>a b c. a \<in> A \<Longrightarrow> b \<in> A \<Longrightarrow> c \<in> A \<Longrightarrow> f a b \<le> 0 \<Longrightarrow> f b c \<le> 0 \<Longrightarrow> f a c \<le> 0"
    and total: "\<And>a b. a \<in> A \<Longrightarrow> b \<in> A \<Longrightarrow> 0 < f a b \<Longrightarrow> f b a \<le> 0"
    and x: "x \<in> A"
  shows "set ys \<subseteq> A \<Longrightarrow> sorted_wrt (\<lambda>a b. f a b \<le> 0) ys \<Longrightarrow> insertSorted cmp x ys = Inr zs
           \<Longrightarrow> sorted_wrt (\<lambda>a b. f a b \<le> 0) zs"
proof (induction ys arbitrary: zs)
  case Nil
  then show ?case by auto
next
  case (Cons y ys)
  have y: "y \<in> A" and ys: "set ys \<subseteq> A" using Cons.prems(1) by auto
  have c: "cmp x y = Inr (f x y)" using cmp x y by simp
  show ?case
  proof (cases "f x y \<le> 0")
    case True
    with c Cons.prems(3) have zs: "zs = x # y # ys" by simp
    have "f x z \<le> 0" if "z \<in> set ys" for z
    proof -
      have "f y z \<le> 0" using Cons.prems(2) that by simp
      moreover have "z \<in> A" using ys that by auto
      ultimately show ?thesis using trans [OF x y _ True] by blast
    qed
    with True Cons.prems(2) zs show ?thesis by simp
  next
    case False
    obtain zs' where zs': "insertSorted cmp x ys = Inr zs'" "mset zs' = add_mset x (mset ys)"
      using insertSorted_mset [of A cmp f x ys] cmp x ys by blast
    with c False Cons.prems(3) have zs: "zs = y # zs'" by simp
    have sorted': "sorted_wrt (\<lambda>a b. f a b \<le> 0) zs'"
      using Cons.IH [OF ys _ zs'(1)] Cons.prems(2) by simp
    have "set zs' = insert x (set ys)"
      using zs'(2) by (metis set_mset_add_mset_insert set_mset_mset)
    moreover have "f y x \<le> 0" using total [OF x y] False by simp
    ultimately have "\<forall>z \<in> set zs'. f y z \<le> 0" using Cons.prems(2) by auto
    with sorted' zs show ?thesis by simp
  qed
qed

lemma sortWith_sorted:
  assumes cmp: "\<And>a b. a \<in> A \<Longrightarrow> b \<in> A \<Longrightarrow> cmp a b = Inr (f a b)"
    and trans: "\<And>a b c. a \<in> A \<Longrightarrow> b \<in> A \<Longrightarrow> c \<in> A \<Longrightarrow> f a b \<le> 0 \<Longrightarrow> f b c \<le> 0 \<Longrightarrow> f a c \<le> 0"
    and total: "\<And>a b. a \<in> A \<Longrightarrow> b \<in> A \<Longrightarrow> 0 < f a b \<Longrightarrow> f b a \<le> 0"
  shows "set xs \<subseteq> A \<Longrightarrow>
         \<exists>ys. sortWith cmp xs = Inr ys \<and> mset ys = mset xs \<and> sorted_wrt (\<lambda>a b. f a b \<le> 0) ys"
proof (induction xs)
  case Nil
  then show ?case by simp
next
  case (Cons x xs)
  then obtain ys where ys: "sortWith cmp xs = Inr ys" "mset ys = mset xs"
      "sorted_wrt (\<lambda>a b. f a b \<le> 0) ys"
    by auto
  have x: "x \<in> A" using Cons.prems by simp
  have sub: "set ys \<subseteq> A"
    using ys(2) Cons.prems by (metis set_mset_mset set_subset_Cons subset_trans)
  obtain zs where zs: "insertSorted cmp x ys = Inr zs" "mset zs = add_mset x (mset ys)"
    using insertSorted_mset [of A cmp f x ys] cmp x sub by blast
  have "sorted_wrt (\<lambda>a b. f a b \<le> 0) zs"
    using insertSorted_sorted [of A cmp f x ys zs] cmp trans total x sub ys(3) zs(1) by blast
  with ys zs show ?case by simp
qed

lemma includesStr_empty: "includesStr s [] = True"
  by (cases s) simp_all

lemma mapIncludes_strings:
  "\<forall>v \<in> set vs. \<exists>s. v = VStr s \<Longrightarrow> \<exists>bs. mapIncludes query vs = Inr bs"
proof (induction vs)
  case Nil
  then show ?case by simp
next
  case (Cons v vs)
  then obtain s bs where "v = VStr s" "mapIncludes query vs = Inr bs" by auto
  then show ?case by simp
qed

lemma mapIncludes_empty_query:
  "\<forall>v \<in> set vs. \<exists>s. v = VStr s \<Longrightarrow> mapIncludes [] vs = Inr (replicate (length vs) True)"
proof (induction vs)
  case Nil
  then show ?case by simp
next
  case (Cons v vs)
  then obtain s where "v = VStr s" "mapIncludes [] vs = Inr (replicate (length vs) True)" by auto
  then show ?case by (simp add: toLowerCase_def includesStr_empty)
qed

lemma filterRows_filter:
  "\<forall>row \<in> set content. \<forall>v \<in> snd ` set row. \<exists>s. v = VStr s \<Longrightarrow>
   filterRows query content = Inr (filter (\<lambda>row. rowMatches query row = Inr True) content)"
proof (induction content)
  case Nil
  then show ?case by simp
next
  case (Cons row rows)
  then have rows: "filterRows query rows
      = Inr (filter (\<lambda>row. rowMatches query row = Inr True) rows)"
    by simp
  have "\<forall>v \<in> set (map snd row). \<exists>s. v = VStr s" using Cons.prems by simp
  then obtain bs where "mapIncludes query (map snd row) = Inr bs"
    using mapIncludes_strings by blast
  then have "rowMatches query row = Inr (True \<in> set bs)" by (simp add: rowMatches_def)
  with rows show ?case by (cases "True \<in> set bs") simp_all
qed

lemma filterRows_empty_query:
  "\<forall>row \<in> set content. row \<noteq> [] \<and> (\<forall>v \<in> snd ` set row. \<exists>s. v = VStr s) \<Longrightarrow>
   filterRows [] content = Inr content"
proof (induction content)
  case Nil
  then show ?case by simp
next
  case (Cons row rows)
  then have rows: "filterRows [] rows = Inr rows" by simp
  have "\<forall>v \<in> set (map snd row). \<exists>s. v = VStr s" and "row \<noteq> []" using Cons.prems by simp_all
  then have "mapIncludes [] (map snd row) = Inr (replicate (length (map snd row)) True)"
    and "0 < length (map snd row)"
    using mapIncludes_empty_query [of "map snd row"] by simp_all
  then have "rowMatches [] row = Inr True"
    by (simp add: rowMatches_def)
  with rows show ?case by simp
qed

lemma firstActive_Some:
  "firstActive sorting ks = Some category \<Longrightarrow>
   category \<in> set ks \<and> map_of sorting category \<noteq> Some SortNone"
  by (induction ks) (auto split: if_splits)

lemma active_direction:
  assumes "firstActive sorting (map fst sorting) = Some category"
  shows "map_of sorting category = Some Ascending \<or> map_of sorting category = Some Descending"
proof -
  have "category \<in> fst ` set sorting" and ne: "map_of sorting category \<noteq> Some SortNone"
    using firstActive_Some [OF assms] by auto
  then obtain order where "map_of sorting category = Some order"
    by (metis map_of_eq_None_iff not_Some_eq)
  with ne show ?thesis by (cases order) auto
qed

lemma codeCompare_total: "0 < codeCompare x y \<Longrightarrow> codeCompare y x \<le> 0"
proof (induction x y rule: codeCompare.induct)
  case 1
  then show ?case by simp
next
  case (2 y ys)
  then show ?case by simp
next
  case (3 x xs)
  then show ?case by simp
next
  case (4 x xs y ys)
  show ?case
  proof (cases "(of_char x :: nat) < of_char y")
    case True
    then show ?thesis using 4 by simp
  next
    case False
    note nlt = this
    show ?thesis
    proof (cases "(of_char y :: nat) < of_char x")
      case True
      then show ?thesis using nlt by simp
    next
      case False
      then show ?thesis using nlt 4 by simp
    qed
  qed
qed

lemma codeCompare_trans:
  "codeCompare x y \<le> 0 \<Longrightarrow> codeCompare y z \<le> 0 \<Longrightarrow> codeCompare x z \<le> 0"
proof (induction x y arbitrary: z rule: codeCompare.induct)
  case 1
  then show ?case by simp
next
  case (2 y ys)
  then show ?case by (cases z) simp_all
next
  case (3 x xs)
  then show ?case by simp
next
  case (4 x xs y ys)
  show ?case
  proof (cases z)
    case Nil
    with "4.prems" show ?thesis by simp
  next
    case (Cons c cs)
    have xy: "\<not> (of_char y :: nat) < of_char x"
    proof
      assume "(of_char y :: nat) < of_char x"
      then have "codeCompare (x # xs) (y # ys) = 1" by simp
      with "4.prems"(1) show False by simp
    qed
    have yc: "\<not> (of_char c :: nat) < of_char y"
    proof
      assume "(of_char c :: nat) < of_char y"
      then have "codeCompare (y # ys) (c # cs) = 1" by simp
      with "4.prems"(2) Cons show False by simp
    qed
    show ?thesis
    proof (cases "(of_char x :: nat) < of_char c")
      case True
      with Cons show ?thesis by simp
    next
      case False
      with xy yc have eq: "(of_char x :: nat) = of_char y" "(of_char y :: nat) = of_char c"
        by linarith+
      then have "codeCompare xs ys \<le> 0" "codeCompare ys cs \<le> 0"
        using "4.prems" Cons by simp_all
      moreover have "\<not> (of_char x :: nat) < of_char y" "\<not> (of_char y :: nat) < of_char x"
        using eq by simp_all
      ultimately have "codeCompare xs cs \<le> 0" using "4.IH" by blast
      with eq Cons show ?thesis by simp
    qed
  qed
qed

text \<open>
  C6, as amended. Let the collation be transitive and total and let every value of every
  record be a string. Let \<open>category\<close> be the active column of the state, and let every
  record that passes the filter have a string in that column, or at most one record
  pass. Then \<open>filterContent\<close> returns, and what it returns is a rearrangement of the
  records that pass the filter, ordered by the lowercased value of that column:
  ascending when the state of the column is \<open>ascending\<close>, descending when it is
  \<open>descending\<close>. The state of the active column is one of the two.
\<close>

theorem filterContent_keeps_direction:
  assumes trans: "\<forall>x y z. lc x y \<le> 0 \<and> lc y z \<le> 0 \<longrightarrow> lc x z \<le> 0"
    and total: "\<forall>x y. 0 < lc x y \<longrightarrow> lc y x \<le> 0"
    and strings: "\<forall>row \<in> set content. \<forall>v \<in> snd ` set row. \<exists>s. v = VStr s"
    and column: "length (filter (\<lambda>row. rowMatches query row = Inr True) content) \<le> 1
        \<or> (\<forall>row \<in> set content. rowMatches query row = Inr True \<longrightarrow>
              (\<exists>s. getProp row category = VStr s))"
    and active: "firstActive sorting (map fst sorting) = Some category"
  shows "\<exists>result.
           filterRows query content
             = Inr (filter (\<lambda>row. rowMatches query row = Inr True) content)
         \<and> filterContent lc sorting query content = Inr result
         \<and> mset result = mset (filter (\<lambda>row. rowMatches query row = Inr True) content)
         \<and> (map_of sorting category = Some Ascending \<or> map_of sorting category = Some Descending)
         \<and> (map_of sorting category = Some Ascending \<longrightarrow>
              sorted_wrt (\<lambda>a b. \<exists>x y. toLowerCaseVal (getProp a category) = Inr x
                                   \<and> toLowerCaseVal (getProp b category) = Inr y
                                   \<and> lc x y \<le> 0) result)
         \<and> (map_of sorting category = Some Descending \<longrightarrow>
              sorted_wrt (\<lambda>a b. \<exists>x y. toLowerCaseVal (getProp a category) = Inr x
                                   \<and> toLowerCaseVal (getProp b category) = Inr y
                                   \<and> lc y x \<le> 0) result)"
proof -
  define newContent where "newContent = filter (\<lambda>row. rowMatches query row = Inr True) content"
  define A where "A = {row. \<exists>s. getProp row category = VStr s}"
  define key where "key = (\<lambda>row. case getProp row category of VStr s \<Rightarrow> toLowerCase s | _ \<Rightarrow> [])"
  define asc where "asc = (map_of sorting category = Some Ascending)"
  define f where "f = (\<lambda>a b. if asc then lc (key a) (key b) else lc (key b) (key a))"
  define up where "up = (\<lambda>a b. \<exists>x y. toLowerCaseVal (getProp a category) = Inr x
                                   \<and> toLowerCaseVal (getProp b category) = Inr y
                                   \<and> lc x y \<le> 0)"
  define down where "down = (\<lambda>a b. \<exists>x y. toLowerCaseVal (getProp a category) = Inr x
                                   \<and> toLowerCaseVal (getProp b category) = Inr y
                                   \<and> lc y x \<le> 0)"
  have dir: "map_of sorting category = Some Ascending \<or> map_of sorting category = Some Descending"
    using active by (rule active_direction)
  have new: "filterRows query content = Inr newContent"
    unfolding newContent_def using strings by (rule filterRows_filter)
  have sorted: "\<exists>result. sortWith (compareRows lc sorting category False) newContent = Inr result
      \<and> mset result = mset newContent
      \<and> (asc \<longrightarrow> sorted_wrt up result) \<and> (\<not> asc \<longrightarrow> sorted_wrt down result)"
  proof (cases "length newContent \<le> 1")
    case True
    then consider "newContent = []" | row where "newContent = [row]"
      by (cases newContent) (auto simp: Suc_le_eq)
    then show ?thesis
    proof cases
      case 1
      then show ?thesis by simp
    next
      case 2
      then show ?thesis by simp
    qed
  next
    case False
    with column have "\<forall>row \<in> set content. rowMatches query row = Inr True \<longrightarrow>
        (\<exists>s. getProp row category = VStr s)"
      by (simp add: newContent_def)
    then have subA: "set newContent \<subseteq> A" by (auto simp: A_def newContent_def)
    have keyA: "toLowerCaseVal (getProp a category) = Inr (key a)" if "a \<in> A" for a
      using that by (auto simp: A_def key_def)
    have cmp: "compareRows lc sorting category False a b = Inr (f a b)"
      if a: "a \<in> A" and b: "b \<in> A" for a b
    proof -
      obtain s t where st: "getProp a category = VStr s" "getProp b category = VStr t"
        using a b by (auto simp: A_def)
      show ?thesis
        unfolding compareRows_strings [OF st] by (simp add: f_def asc_def key_def st)
    qed
    have f_trans: "f a c \<le> 0" if ab: "f a b \<le> 0" and bc: "f b c \<le> 0" for a b c
    proof (cases asc)
      case True
      with ab bc have "lc (key a) (key b) \<le> 0" "lc (key b) (key c) \<le> 0"
        by (simp_all add: f_def)
      with trans have "lc (key a) (key c) \<le> 0" by blast
      with True show ?thesis by (simp add: f_def)
    next
      case False
      with ab bc have "lc (key c) (key b) \<le> 0" "lc (key b) (key a) \<le> 0"
        by (simp_all add: f_def)
      with trans have "lc (key c) (key a) \<le> 0" by blast
      with False show ?thesis by (simp add: f_def)
    qed
    have f_total: "f b a \<le> 0" if ab: "0 < f a b" for a b
    proof (cases asc)
      case True
      with ab have "0 < lc (key a) (key b)" by (simp add: f_def)
      with total have "lc (key b) (key a) \<le> 0" by blast
      with True show ?thesis by (simp add: f_def)
    next
      case False
      with ab have "0 < lc (key b) (key a)" by (simp add: f_def)
      with total have "lc (key a) (key b) \<le> 0" by blast
      with False show ?thesis by (simp add: f_def)
    qed
    obtain result where res:
        "sortWith (compareRows lc sorting category False) newContent = Inr result"
        "mset result = mset newContent" "sorted_wrt (\<lambda>a b. f a b \<le> 0) result"
      using sortWith_sorted [of A "compareRows lc sorting category False" f newContent]
        cmp f_trans f_total subA by blast
    have resA: "set result \<subseteq> A" using res(2) subA by (metis set_mset_mset)
    have "sorted_wrt up result" if asc
      using res(3)
    proof (rule sorted_wrt_mono_rel [rotated])
      fix a b assume "a \<in> set result" "b \<in> set result" "f a b \<le> 0"
      then show "up a b"
        using keyA resA that by (auto simp: f_def up_def)
    qed
    moreover have "sorted_wrt down result" if "\<not> asc"
      using res(3)
    proof (rule sorted_wrt_mono_rel [rotated])
      fix a b assume "a \<in> set result" "b \<in> set result" "f a b \<le> 0"
      then show "down a b"
        using keyA resA that by (auto simp: f_def down_def)
    qed
    ultimately show ?thesis using res(1,2) by blast
  qed
  then obtain result where res:
      "sortWith (compareRows lc sorting category False) newContent = Inr result"
      "mset result = mset newContent"
      "asc \<longrightarrow> sorted_wrt up result" "\<not> asc \<longrightarrow> sorted_wrt down result"
    by blast
  have fc: "filterContent lc sorting query content = Inr result"
    by (simp add: filterContent_def new active sortContent_def res(1))
  have "map_of sorting category = Some Descending \<longrightarrow> \<not> asc" by (simp add: asc_def)
  with new fc res dir show ?thesis
    unfolding newContent_def up_def down_def asc_def by blast
qed

text \<open>
  The amended statement of C6 at two inputs with the column \<open>color\<close> descending. With the
  query \<open>u\<close> two of three records pass and both have a color, the third has none. With the
  query \<open>deer\<close> the one record that passes has no color.
\<close>

theorem filterContent_keeps_direction_witness:
  "(\<exists>result.
     filterContent codeCompare [(''animal'', SortNone), (''color'', Descending)] ''u''
       [[(''animal'', VStr ''manatee''), (''color'', VStr ''turquoise'')],
        [(''animal'', VStr ''deer'')],
        [(''animal'', VStr ''unicorn''), (''color'', VStr ''blue'')]] = Inr result
   \<and> mset result = mset (filter (\<lambda>row. rowMatches ''u'' row = Inr True)
       [[(''animal'', VStr ''manatee''), (''color'', VStr ''turquoise'')],
        [(''animal'', VStr ''deer'')],
        [(''animal'', VStr ''unicorn''), (''color'', VStr ''blue'')]])
   \<and> sorted_wrt (\<lambda>a b. \<exists>x y. toLowerCaseVal (getProp a ''color'') = Inr x
                        \<and> toLowerCaseVal (getProp b ''color'') = Inr y
                        \<and> codeCompare y x \<le> 0) result)
   \<and> (\<exists>result.
     filterContent codeCompare [(''animal'', SortNone), (''color'', Descending)] ''deer''
       [[(''animal'', VStr ''manatee''), (''color'', VStr ''turquoise'')],
        [(''animal'', VStr ''deer'')]] = Inr result
   \<and> mset result = mset (filter (\<lambda>row. rowMatches ''deer'' row = Inr True)
       [[(''animal'', VStr ''manatee''), (''color'', VStr ''turquoise'')],
        [(''animal'', VStr ''deer'')]]))"
proof -
  have trans: "\<forall>x y z. codeCompare x y \<le> 0 \<and> codeCompare y z \<le> 0 \<longrightarrow> codeCompare x z \<le> 0"
    using codeCompare_trans by blast
  have total: "\<forall>x y. 0 < codeCompare x y \<longrightarrow> codeCompare y x \<le> 0"
    using codeCompare_total by blast
  have active: "firstActive [(''animal'', SortNone), (''color'', Descending)]
                  (map fst [(''animal'', SortNone), (''color'', Descending)]) = Some ''color''"
    by simp
  have descending: "map_of [(''animal'', SortNone), (''color'', Descending)] ''color'' = Some Descending"
    by simp
  have strings1: "\<forall>row \<in> set
       [[(''animal'', VStr ''manatee''), (''color'', VStr ''turquoise'')],
        [(''animal'', VStr ''deer'')],
        [(''animal'', VStr ''unicorn''), (''color'', VStr ''blue'')]].
        \<forall>v \<in> snd ` set row. \<exists>s. v = VStr s"
    by simp
  have column1: "length (filter (\<lambda>row. rowMatches ''u'' row = Inr True)
       [[(''animal'', VStr ''manatee''), (''color'', VStr ''turquoise'')],
        [(''animal'', VStr ''deer'')],
        [(''animal'', VStr ''unicorn''), (''color'', VStr ''blue'')]]) \<le> 1
     \<or> (\<forall>row \<in> set
       [[(''animal'', VStr ''manatee''), (''color'', VStr ''turquoise'')],
        [(''animal'', VStr ''deer'')],
        [(''animal'', VStr ''unicorn''), (''color'', VStr ''blue'')]].
          rowMatches ''u'' row = Inr True \<longrightarrow> (\<exists>s. getProp row ''color'' = VStr s))"
    by (simp add: rowMatches_def getProp_def toLowerCase_def toLowerChar_def
          upperAlphabet_def lowerAlphabet_def)
  have strings2: "\<forall>row \<in> set
       [[(''animal'', VStr ''manatee''), (''color'', VStr ''turquoise'')],
        [(''animal'', VStr ''deer'')]].
        \<forall>v \<in> snd ` set row. \<exists>s. v = VStr s"
    by simp
  have column2: "length (filter (\<lambda>row. rowMatches ''deer'' row = Inr True)
       [[(''animal'', VStr ''manatee''), (''color'', VStr ''turquoise'')],
        [(''animal'', VStr ''deer'')]]) \<le> 1
     \<or> (\<forall>row \<in> set
       [[(''animal'', VStr ''manatee''), (''color'', VStr ''turquoise'')],
        [(''animal'', VStr ''deer'')]].
          rowMatches ''deer'' row = Inr True \<longrightarrow> (\<exists>s. getProp row ''color'' = VStr s))"
    by (simp add: rowMatches_def getProp_def toLowerCase_def toLowerChar_def
          upperAlphabet_def lowerAlphabet_def)
  show ?thesis
    using filterContent_keeps_direction [OF trans total strings1 column1 active]
          filterContent_keeps_direction [OF trans total strings2 column2 active]
          descending
    by blast
qed

text \<open>
  C6 as stated fails on a record collection with a value that is not a string, and on
  one where two records pass the filter and one of them has no value in the active
  column: in both the filter throws instead of returning a sorted result.
\<close>

theorem filterContent_throws_counterexample:
  "filterContent codeCompare [(''animal'', Ascending), (''age'', SortNone)] ''a''
      [[(''animal'', VStr ''manatee''), (''age'', VNum 30)],
       [(''animal'', VStr ''deer''), (''age'', VNum 4)]] = Inl TypeError
   \<and> filterContent codeCompare [(''animal'', SortNone), (''color'', Ascending)] ''e''
      [[(''animal'', VStr ''manatee''), (''color'', VStr ''turquoise'')],
       [(''animal'', VStr ''deer'')]] = Inl TypeError"
  by (simp add: filterContent_def rowMatches_def sortContent_def compareRows_def getProp_def
        toLowerCase_def toLowerChar_def upperAlphabet_def lowerAlphabet_def)

section \<open>Rendering dates\<close>

text \<open>
  C7, as amended. For whatever the date library answers: a row without the property
  renders as \<open>undefined\<close>; a value that the library finds valid and that is equal to
  its own ISO string renders as the library's formatting of it, with the pattern
  \<open>dateFormat\<close> when one is given and not empty and with \<open>DD/MM/YYYY\<close> otherwise; every
  other present value renders as it is. The formatting is done in the local time of
  the host: on a host at universal time the value \<open>2023-05-01T00:00:00.000Z\<close> renders
  as \<open>01/05/2023\<close> without \<open>dateFormat\<close> and as \<open>05/01/23\<close> with \<open>MM/DD/YY\<close>.
\<close>

theorem renderProperty_dates:
  "(map_of row (entry_category category) = None \<longrightarrow>
      renderProperty isValid toISOString format dateFormat row category = VUndefined)
   \<and> (\<forall>v. map_of row (entry_category category) = Some v
          \<and> isValid v \<and> v = VStr (toISOString v) \<longrightarrow>
      renderProperty isValid toISOString format dateFormat row category
        = VStr (format v (case dateFormat of
                            None \<Rightarrow> ''DD/MM/YYYY''
                          | Some f \<Rightarrow> (if f = [] then ''DD/MM/YYYY'' else f))))
   \<and> (\<forall>v. map_of row (entry_category category) = Some v
          \<and> \<not> (isValid v \<and> v = VStr (toISOString v)) \<longrightarrow>
      renderProperty isValid toISOString format dateFormat row category = v)
   \<and> renderProperty hostIsValid hostToISOString (hostFormat 0) None
        [(''start'', VStr ''2023-05-01T00:00:00.000Z'')]
        \<lparr>entry_category = ''start'', entry_formattedCategory = ''Start''\<rparr>
      = VStr ''01/05/2023''
   \<and> renderProperty hostIsValid hostToISOString (hostFormat 0) (Some ''MM/DD/YY'')
        [(''start'', VStr ''2023-05-01T00:00:00.000Z'')]
        \<lparr>entry_category = ''start'', entry_formattedCategory = ''Start''\<rparr>
      = VStr ''05/01/23''"
proof (intro conjI allI impI)
  assume "map_of row (entry_category category) = None"
  then show "renderProperty isValid toISOString format dateFormat row category = VUndefined"
    by (simp add: renderProperty_def)
next
  fix v
  assume "map_of row (entry_category category) = Some v
          \<and> isValid v \<and> v = VStr (toISOString v)"
  then show "renderProperty isValid toISOString format dateFormat row category
        = VStr (format v (case dateFormat of
                            None \<Rightarrow> ''DD/MM/YYYY''
                          | Some f \<Rightarrow> (if f = [] then ''DD/MM/YYYY'' else f)))"
    by (cases dateFormat) (simp_all add: renderProperty_def)
next
  fix v
  assume "map_of row (entry_category category) = Some v
          \<and> \<not> (isValid v \<and> v = VStr (toISOString v))"
  then show "renderProperty isValid toISOString format dateFormat row category = v"
    by (auto simp: renderProperty_def)
next
  show "renderProperty hostIsValid hostToISOString (hostFormat 0) None
        [(''start'', VStr ''2023-05-01T00:00:00.000Z'')]
        \<lparr>entry_category = ''start'', entry_formattedCategory = ''Start''\<rparr>
      = VStr ''01/05/2023''"
    by code_simp
next
  show "renderProperty hostIsValid hostToISOString (hostFormat 0) (Some ''MM/DD/YY'')
        [(''start'', VStr ''2023-05-01T00:00:00.000Z'')]
        \<lparr>entry_category = ''start'', entry_formattedCategory = ''Start''\<rparr>
      = VStr ''05/01/23''"
    by code_simp
qed

text \<open>
  The amended statement of C7 on a row with a date, a string of digits and no third
  property, on a host one hour ahead of universal time.
\<close>

theorem renderProperty_dates_witness:
  "renderProperty hostIsValid hostToISOString (hostFormat 60) (Some ''MM/DD/YY'')
      [(''start'', VStr ''2023-05-01T00:00:00.000Z''), (''count'', VStr ''12345'')]
      \<lparr>entry_category = ''start'', entry_formattedCategory = ''Start''\<rparr>
     = VStr (hostFormat 60 (VStr ''2023-05-01T00:00:00.000Z'') ''MM/DD/YY'')
   \<and> renderProperty hostIsValid hostToISOString (hostFormat 60) (Some ''MM/DD/YY'')
      [(''start'', VStr ''2023-05-01T00:00:00.000Z''), (''count'', VStr ''12345'')]
      \<lparr>entry_category = ''count'', entry_formattedCategory = ''Count''\<rparr>
     = VStr ''12345''
   \<and> renderProperty hostIsValid hostToISOString (hostFormat 60) (Some ''MM/DD/YY'')
      [(''start'', VStr ''2023-05-01T00:00:00.000Z''), (''count'', VStr ''12345'')]
      \<lparr>entry_category = ''end'', entry_formattedCategory = ''End''\<rparr>
     = VUndefined"
proof -
  have date: "hostIsValid (VStr ''2023-05-01T00:00:00.000Z'')
      \<and> VStr ''2023-05-01T00:00:00.000Z'' = VStr (hostToISOString (VStr ''2023-05-01T00:00:00.000Z''))"
    by code_simp
  have digits: "\<not> (hostIsValid (VStr ''12345'')
      \<and> VStr ''12345'' = VStr (hostToISOString (VStr ''12345'')))"
    by code_simp
  have "renderProperty hostIsValid hostToISOString (hostFormat 60) (Some ''MM/DD/YY'')
      [(''start'', VStr ''2023-05-01T00:00:00.000Z''), (''count'', VStr ''12345'')]
      \<lparr>entry_category = ''start'', entry_formattedCategory = ''Start''\<rparr>
     = VStr (hostFormat 60 (VStr ''2023-05-01T00:00:00.000Z'') ''MM/DD/YY'')"
    using date
      renderProperty_dates [of
        "[(''start'', VStr ''2023-05-01T00:00:00.000Z''), (''count'', VStr ''12345'')]"
        "\<lparr>entry_category = ''start'', entry_formattedCategory = ''Start''\<rparr>"
        hostIsValid hostToISOString "hostFormat 60" "Some ''MM/DD/YY''"]
    by simp
  moreover have "renderProperty hostIsValid hostToISOString (hostFormat 60) (Some ''MM/DD/YY'')
      [(''start'', VStr ''2023-05-01T00:00:00.000Z''), (''count'', VStr ''12345'')]
      \<lparr>entry_category = ''count'', entry_formattedCategory = ''Count''\<rparr>
     = VStr ''12345''"
    using digits
      renderProperty_dates [of
        "[(''start'', VStr ''2023-05-01T00:00:00.000Z''), (''count'', VStr ''12345'')]"
        "\<lparr>entry_category = ''count'', entry_formattedCategory = ''Count''\<rparr>"
        hostIsValid hostToISOString "hostFormat 60" "Some ''MM/DD/YY''"]
    by simp
  moreover have "renderProperty hostIsValid hostToISOString (hostFormat 60) (Some ''MM/DD/YY'')
      [(''start'', VStr ''2023-05-01T00:00:00.000Z''), (''count'', VStr ''12345'')]
      \<lparr>entry_category = ''end'', entry_formattedCategory = ''End''\<rparr>
     = VUndefined"
    using renderProperty_dates [of
        "[(''start'', VStr ''2023-05-01T00:00:00.000Z''), (''count'', VStr ''12345'')]"
        "\<lparr>entry_category = ''end'', entry_formattedCategory = ''End''\<rparr>"
        hostIsValid hostToISOString "hostFormat 60" "Some ''MM/DD/YY''"]
    by simp
  ultimately show ?thesis by blast
qed

text \<open>
  C7 as stated fails on a host whose local time is behind universal time: five hours
  behind, the instant \<open>2023-05-01T00:00:00.000Z\<close> falls on the evening of 30 April, and
  the cell renders as \<open>30/04/2023\<close>, with \<open>MM/DD/YY\<close> as \<open>04/30/23\<close>.
\<close>

theorem renderProperty_local_time_counterexample:
  "renderProperty hostIsValid hostToISOString (hostFormat (- 300)) None
      [(''start'', VStr ''2023-05-01T00:00:00.000Z'')]
      \<lparr>entry_category = ''start'', entry_formattedCategory = ''Start''\<rparr>
     = VStr ''30/04/2023''
   \<and> renderProperty hostIsValid hostToISOString (hostFormat (- 300)) (Some ''MM/DD/YY'')
      [(''start'', VStr ''2023-05-01T00:00:00.000Z'')]
      \<lparr>entry_category = ''start'', entry_formattedCategory = ''Start''\<rparr>
     = VStr ''04/30/23''"
  by code_simp

section \<open>The derived color theme\<close>

text \<open>
  C8. A shorthand color is claimed to be expanded by doubling each digit. Each doubling
  replaces the first occurrence of the digit in the string built so far, so in \<open>#f0f\<close>
  the last digit doubles the first one again: the string becomes \<open>#fff00f\<close> and the
  channels are 255, 240, 15 with black text, where doubling each digit gives \<open>#ff00ff\<close>,
  the channels 255, 0, 255 and white text.
\<close>

theorem customColorTheme_shorthand_f0f:
  "hexRegexTest ''#f0f''
   \<and> colorEffect (Some ''#f0f'') defaultTheme
       = \<lparr>theme_bright = ''rgba(255, 240, 15, 1)'',
          theme_light = ''rgba(255, 240, 15, 0.2)'',
          theme_text = ''black''\<rparr>"
  by code_simp

section \<open>Filtering with the empty query\<close>

text \<open>
  C9, as amended. When no column of the state is active, every record has at least one
  value and every value is a string, \<open>filterContent\<close> with the empty query returns the
  collection as it is.
\<close>

theorem filterContent_empty_query:
  assumes "firstActive sorting (map fst sorting) = None"
    and "\<forall>row \<in> set content. row \<noteq> [] \<and> (\<forall>v \<in> snd ` set row. \<exists>s. v = VStr s)"
  shows "filterContent lc sorting [] content = Inr content"
  using assms by (simp add: filterContent_def filterRows_empty_query)

text \<open>The amended statement of C9 on two records, the second without the column \<open>color\<close>.\<close>

theorem filterContent_empty_query_witness:
  "filterContent codeCompare [(''animal'', SortNone), (''color'', SortNone)] []
      [[(''animal'', VStr ''manatee''), (''color'', VStr ''turquoise'')],
       [(''animal'', VStr ''deer'')]]
   = Inr [[(''animal'', VStr ''manatee''), (''color'', VStr ''turquoise'')],
          [(''animal'', VStr ''deer'')]]"
  using filterContent_empty_query [of "[(''animal'', SortNone), (''color'', SortNone)]"
          "[[(''animal'', VStr ''manatee''), (''color'', VStr ''turquoise'')],
            [(''animal'', VStr ''deer'')]]" codeCompare]
  by simp

text \<open>
  C9 as stated fails in three ways: with an active column the result is the collection
  sorted, not the collection in its own order; a record without any value is dropped;
  and a value that is not a string makes the filter throw.
\<close>

theorem filterContent_empty_query_counterexample:
  "filterContent codeCompare [(''animal'', Ascending)] []
      [[(''animal'', VStr ''manatee'')], [(''animal'', VStr ''deer'')]]
     = Inr [[(''animal'', VStr ''deer'')], [(''animal'', VStr ''manatee'')]]
   \<and> filterContent codeCompare [(''animal'', SortNone)] []
      [[(''animal'', VStr ''deer'')], []]
     = Inr [[(''animal'', VStr ''deer'')]]
   \<and> filterContent codeCompare [(''animal'', SortNone), (''age'', SortNone)] []
      [[(''animal'', VStr ''deer''), (''age'', VNum 4)]]
     = Inl TypeError"
  by (simp add: filterContent_def rowMatches_def sortContent_def compareRows_def getProp_def
        toLowerCase_def toLowerChar_def upperAlphabet_def lowerAlphabet_def)

section \<open>Accepted colors that are not hexadecimal\<close>

lemma showNat_head: "\<exists>d ds. showNat n = d # ds \<and> d \<in> set ''0123456789''"
proof (induction n rule: showNat.induct)
  case (1 n)
  show ?case
  proof (cases "n < 10")
    case True
    then have "digitChar n \<in> set ''0123456789''"
      unfolding digitChar_def by (intro nth_mem) simp
    with True show ?thesis by (subst showNat.simps) simp
  next
    case False
    with 1 obtain d ds where "showNat (n div 10) = d # ds" "d \<in> set ''0123456789''" by blast
    with False show ?thesis by (subst showNat.simps) simp
  qed
qed

text \<open>
  C10. The validation pattern accepts \<open>#zzz\<close>; its channels parse to \<open>NaN\<close>, and the
  derived theme has \<open>rgba(NaN, NaN, NaN, 1)\<close> and \<open>rgba(NaN, NaN, NaN, 0.2)\<close> for bright
  and light. The bright value is not the opaque color string of any three numbers.
\<close>

theorem accepted_color_with_NaN_channels:
  "hexRegexTest ''#zzz''
   \<and> parseInt16 (slice (expandLetters ''#zzz'' ''#zzz'') 1 3) = None
   \<and> colorEffect (Some ''#zzz'') defaultTheme
       = \<lparr>theme_bright = ''rgba(NaN, NaN, NaN, 1)'',
          theme_light = ''rgba(NaN, NaN, NaN, 0.2)'',
          theme_text = ''white''\<rparr>
   \<and> (\<forall>r g b. theme_bright (colorEffect (Some ''#zzz'') defaultTheme)
         \<noteq> ''rgba('' @ showNat r @ '', '' @ showNat g @ '', '' @ showNat b @ '', 1)'')"
proof -
  have eval: "hexRegexTest ''#zzz''
   \<and> parseInt16 (slice (expandLetters ''#zzz'' ''#zzz'') 1 3) = None
   \<and> colorEffect (Some ''#zzz'') defaultTheme
       = \<lparr>theme_bright = ''rgba(NaN, NaN, NaN, 1)'',
          theme_light = ''rgba(NaN, NaN, NaN, 0.2)'',
          theme_text = ''white''\<rparr>"
    by code_simp
  have "''rgba(NaN, NaN, NaN, 1)'' \<noteq> ''rgba('' @ showNat r @ rest" for r rest
  proof -
    obtain d ds where "showNat r = d # ds" "d \<in> set ''0123456789''"
      using showNat_head by blast
    then show ?thesis by auto
  qed
  with eval show ?thesis by simp
qed

end
